theory Spec2Isabelle
  imports Main
begin

section \<open>The \<open>install_req\<close> block of the setup script template\<close>

text \<open>
  The template \<^verbatim>\<open>.templates/setup.py.template\<close> fills the block \<open>install_req\<close> of a
  generated \<^verbatim>\<open>setup.py\<close>. The block reads \<^verbatim>\<open>sys.argv\<close> and \<^verbatim>\<open>sys.path\<close>, asks
  \<^verbatim>\<open>pkg_resources\<close> for the distributions found on a list of directories, chooses the
  name of the TensorFlow package to require (\<^verbatim>\<open>tf_req\<close>) and builds the list
  \<^verbatim>\<open>install_req\<close>.

  Python strings are modelled as \<open>string\<close>, Python lists as HOL lists, an exception as
  the left summand of \<open>error + 'a\<close>. A module-level variable that may still be unbound
  is an \<open>option\<close>; reading it while it is \<open>None\<close> is Python's \<^verbatim>\<open>NameError\<close>.
\<close>

subsection \<open>Errors\<close>

datatype error =
  NameError string
  | ValueError
  | MetadataError string

definition read_var :: "string \<Rightarrow> 'a option \<Rightarrow> error + 'a" where
  "read_var name v = (case v of None \<Rightarrow> Inl (NameError name) | Some x \<Rightarrow> Inr x)"

definition and_then :: "error + 'a \<Rightarrow> ('a \<Rightarrow> error + 'b) \<Rightarrow> error + 'b" where
  "and_then r f = (case r of Inl e \<Rightarrow> Inl e | Inr x \<Rightarrow> f x)"

subsection \<open>String operations of the Python library used by the block\<close>

text \<open>
  \<^verbatim>\<open>sub in s\<close> on strings is the substring test: \<open>sub\<close> occurs at some position of
  \<open>s\<close>.
\<close>

fun str_contains :: "string \<Rightarrow> string \<Rightarrow> bool" where
  "str_contains sub [] = (sub = [])"
| "str_contains sub (c # cs) = (take (length sub) (c # cs) = sub \<or> str_contains sub cs)"

text \<open>
  \<^verbatim>\<open>s.index(sub)\<close> is the lowest position at which \<open>sub\<close> occurs in \<open>s\<close>; it raises
  \<^verbatim>\<open>ValueError\<close> when there is none, which is \<open>None\<close> here.
\<close>

fun str_index :: "string \<Rightarrow> string \<Rightarrow> nat option" where
  "str_index [] sub = (if sub = [] then Some 0 else None)"
| "str_index (c # cs) sub =
     (if take (length sub) (c # cs) = sub then Some 0
      else map_option Suc (str_index cs sub))"

text \<open>
  \<^verbatim>\<open>os.path.join(a, b)\<close> with two arguments, as \<^verbatim>\<open>posixpath\<close> defines it: an absolute
  \<open>b\<close> replaces \<open>a\<close>, otherwise the two are joined by one separator. The block does
  not import \<^verbatim>\<open>os\<close> itself; the name is taken to be bound by the base template that the
  block extends.
\<close>

definition os_path_join :: "string \<Rightarrow> string \<Rightarrow> string" where
  "os_path_join a b =
     (if take 1 b = ''/'' then b
      else if a = [] \<or> drop (length a - 1) a = ''/'' then a @ b
      else a @ ''/'' @ b)"

subsection \<open>The state the block runs in\<close>

text \<open>
  A distribution as \<^verbatim>\<open>pkg_resources\<close> reports it. The block reads \<open>project_name\<close>
  only.
\<close>

record dist =
  project_name :: string
  version :: string

text \<open>
  The ambient state (\<open>sys_argv\<close>, \<open>sys_path\<close>, and \<open>WorkingSet\<close>: what
  \<^verbatim>\<open>pkg_resources.WorkingSet(entries)\<close> enumerates for a list of directories, or the
  exception it raises) and the variables the block assigns.
\<close>

record state =
  sys_argv :: "string list"
  sys_path :: "string list"
  WorkingSet :: "string list \<Rightarrow> error + dist list"
  target_path :: "string option"
  source_path :: "string list option"
  installed_dists :: "string list option"
  tf_req :: "string option"
  install_req :: "string list option"

subsection \<open>The statements of the block\<close>

text \<open>Line 21: \<^verbatim>\<open>target_path = os.path.join("site-packages", "pip")\<close>.\<close>

definition assign_target_path :: "state \<Rightarrow> error + state" where
  "assign_target_path s = Inr (s\<lparr>target_path := Some (os_path_join ''site-packages'' ''pip'')\<rparr>)"

text \<open>
  Lines 22 to 28, the \<^verbatim>\<open>for path in sys.path\<close> loop with its \<^verbatim>\<open>else\<close>: the value
  assigned to \<open>source_path\<close>. The first entry that contains \<open>target\<close> is cut at
  \<^verbatim>\<open>path.index("pip")\<close>; when the loop ends without \<^verbatim>\<open>break\<close> the value is the whole
  \<^verbatim>\<open>sys.path\<close>.
\<close>

fun find_source_path :: "string \<Rightarrow> string list \<Rightarrow> string list \<Rightarrow> error + string list" where
  "find_source_path target [] whole = Inr whole"
| "find_source_path target (path # rest) whole =
     (if str_contains target path then
        (case str_index path ''pip'' of
           None \<Rightarrow> Inl ValueError
         | Some i \<Rightarrow> Inr [take i path])
      else find_source_path target rest whole)"

definition assign_source_path :: "state \<Rightarrow> error + state" where
  "assign_source_path s =
     and_then (read_var ''target_path'' (target_path s)) (\<lambda>target.
     and_then (find_source_path target (sys_path s) (sys_path s)) (\<lambda>sp.
     Inr (s\<lparr>source_path := Some sp\<rparr>)))"

text \<open>
  Line 29:
  \<^verbatim>\<open>installed_dists = [d.project_name for d in pkg_resources.WorkingSet(source_path)]\<close>.
\<close>

definition assign_installed_dists :: "state \<Rightarrow> error + state" where
  "assign_installed_dists s =
     and_then (read_var ''source_path'' (source_path s)) (\<lambda>sp.
     and_then (WorkingSet s sp) (\<lambda>ds.
     Inr (s\<lparr>installed_dists := Some (map project_name ds)\<rparr>)))"

text \<open>
  Lines 30 to 41, the \<^verbatim>\<open>for d in [...]\<close> loop with its \<^verbatim>\<open>else\<close>: the value assigned to
  \<open>tf_req\<close>.
\<close>

definition tf_candidates :: "string list" where
  "tf_candidates =
     [''tf-nightly-gpu'', ''tf-nightly'', ''tf-nightly-cpu'', ''tensorflow-gpu'',
      ''tensorflow-cpu'']"

fun scan_candidates :: "string list \<Rightarrow> string list \<Rightarrow> string" where
  "scan_candidates [] installed = ''tensorflow''"
| "scan_candidates (d # ds) installed =
     (if d \<in> set installed then d else scan_candidates ds installed)"

definition assign_tf_req :: "state \<Rightarrow> error + state" where
  "assign_tf_req s =
     and_then (read_var ''installed_dists'' (installed_dists s)) (\<lambda>installed.
     Inr (s\<lparr>tf_req := Some (scan_candidates tf_candidates installed)\<rparr>))"

text \<open>Lines 8 to 41: the \<^verbatim>\<open>if "bdist_wheel" in sys.argv\<close> statement.\<close>

definition resolve :: "state \<Rightarrow> error + state" where
  "resolve s =
     (if ''bdist_wheel'' \<in> set (sys_argv s) then Inr (s\<lparr>tf_req := Some ''tensorflow''\<rparr>)
      else
        and_then (assign_target_path s) (\<lambda>s1.
        and_then (assign_source_path s1) (\<lambda>s2.
        and_then (assign_installed_dists s2) assign_tf_req)))"

text \<open>Lines 43 to 50: \<^verbatim>\<open>install_req = [...]\<close>, with \<^verbatim>\<open>"%s>=2.0.0" % tf_req\<close>.\<close>

definition manifest :: "string \<Rightarrow> string list" where
  "manifest tf =
     [''nengo>=3.0.0'', ''numpy>=1.16.0'', tf @ ''>=2.0.0'', ''jinja2>=2.10.1'',
      ''packaging>=20.0'', ''progressbar2>=3.39.0'']"

definition assign_install_req :: "state \<Rightarrow> error + state" where
  "assign_install_req s =
     and_then (read_var ''tf_req'' (tf_req s)) (\<lambda>tf.
     Inr (s\<lparr>install_req := Some (manifest tf)\<rparr>))"

text \<open>The whole block.\<close>

definition install_req_block :: "state \<Rightarrow> error + state" where
  "install_req_block s = and_then (resolve s) assign_install_req"

subsection \<open>The earlier revision of the block\<close>

text \<open>
  The file \<^verbatim>\<open>src/unnamed/part_000\<close> is an earlier revision of the same block. It asks the
  global \<^verbatim>\<open>pkg_resources.working_set\<close> instead of looking for the original site
  directory, scans the three names of \<open>tf_dists\<close> with the same loop, and builds a list of
  four requirements.
\<close>

definition tf_dists :: "string list" where
  "tf_dists = [''tf-nightly-gpu'', ''tf-nightly'', ''tensorflow-gpu'']"

definition resolve_earlier :: "string list \<Rightarrow> dist list \<Rightarrow> string" where
  "resolve_earlier argv working_set =
     (if ''bdist_wheel'' \<in> set argv then ''tensorflow''
      else scan_candidates tf_dists (map project_name working_set))"

definition manifest_earlier :: "string \<Rightarrow> string list" where
  "manifest_earlier tf =
     [''nengo>=2.8.0'', ''numpy>=1.14.5'', tf @ ''>=2.0.0b1'', ''progressbar2>=3.39.0'']"

subsection \<open>Requirement specifiers\<close>

text \<open>
  A requirement specifier is a name followed by a comparator and a version. The
  TensorFlow family is the five candidates and the default name.
\<close>

definition is_comparator_char :: "char \<Rightarrow> bool" where
  "is_comparator_char c = (c \<in> set ''<>=!~'')"

definition requirement_name :: "string \<Rightarrow> string" where
  "requirement_name spec = takeWhile (\<lambda>c. \<not> is_comparator_char c) spec"

definition requirement_bound :: "string \<Rightarrow> string" where
  "requirement_bound spec = dropWhile (\<lambda>c. \<not> is_comparator_char c) spec"

definition tf_family :: "string list" where
  "tf_family = tf_candidates @ [''tensorflow'']"

definition is_tf_family_spec :: "string \<Rightarrow> bool" where
  "is_tf_family_spec spec = (requirement_name spec \<in> set tf_family)"

subsection \<open>Example states\<close>

text \<open>Variables are unbound when the block starts.\<close>

definition initial :: "string list \<Rightarrow> string list \<Rightarrow> (string list \<Rightarrow> error + dist list) \<Rightarrow> state" where
  "initial argv path ws =
     \<lparr>sys_argv = argv, sys_path = path, WorkingSet = ws, target_path = None,
      source_path = None, installed_dists = None, tf_req = None, install_req = None\<rparr>"

text \<open>
  An installation run by pip in an isolated build environment: the second entry of
  \<^verbatim>\<open>sys.path\<close> lies inside the pip package of the original environment, whose site
  directory holds two of the candidates.
\<close>

definition site_dists :: "dist list" where
  "site_dists =
     [\<lparr>project_name = ''numpy'', version = ''1.18.1''\<rparr>,
      \<lparr>project_name = ''tensorflow-gpu'', version = ''2.1.0''\<rparr>,
      \<lparr>project_name = ''tf-nightly'', version = ''2.2.0.dev1''\<rparr>]"

definition isolated_install :: state where
  "isolated_install =
     initial [''setup.py'', ''install''] [''/b/overlay'', ''/v/site-packages/pip/_vendor'']
       (\<lambda>sp. if sp = [''/v/site-packages/''] then Inr site_dists else Inr [])"

text \<open>The same environment with the distributions enumerated in the opposite order.\<close>

definition isolated_install_rev :: state where
  "isolated_install_rev =
     initial [''setup.py'', ''install''] [''/b/overlay'', ''/v/site-packages/pip/_vendor'']
       (\<lambda>sp. if sp = [''/v/site-packages/''] then Inr (rev site_dists) else Inr [])"

text \<open>A wheel build in an environment whose metadata cannot be read at all.\<close>

definition wheel_build :: state where
  "wheel_build =
     initial [''setup.py'', ''bdist_wheel''] [''/v/site-packages/pip/_vendor'']
       (\<lambda>sp. Inl (MetadataError ''unreadable''))"

text \<open>
  A direct installation without isolation, where the installed names only resemble the
  candidates.
\<close>

definition lookalike_dists :: "dist list" where
  "lookalike_dists =
     [\<lparr>project_name = ''tensorflow-gpu-estimator'', version = ''2.1.0''\<rparr>,
      \<lparr>project_name = ''tf-nightl'', version = ''2.2.0''\<rparr>,
      \<lparr>project_name = ''Tensorflow-cpu'', version = ''2.0.0''\<rparr>]"

definition plain_install :: state where
  "plain_install =
     initial [''setup.py'', ''develop''] [''/usr/lib/site-packages'']
       (\<lambda>sp. if sp = [''/usr/lib/site-packages''] then Inr lookalike_dists else Inr [])"

text \<open>A direct installation into an environment in which nothing is installed.\<close>

definition empty_install :: state where
  "empty_install =
     initial [''setup.py'', ''install''] [''/usr/lib/site-packages''] (\<lambda>sp. Inr [])"

text \<open>
  An isolated installation whose original environment lives under a directory named
  \<^verbatim>\<open>pipeline\<close>.
\<close>

definition pipeline_path :: "string list" where
  "pipeline_path = [''/home/user/pipeline/venv/lib/python3.7/site-packages/pip/_vendor/pep517'']"

text \<open>
  The site directory of that environment holds \<^verbatim>\<open>tensorflow-gpu\<close>; nothing is installed
  anywhere else.
\<close>

definition pipeline_install :: state where
  "pipeline_install =
     initial [''setup.py'', ''install''] pipeline_path
       (\<lambda>sp. if sp = [''/home/user/pipeline/venv/lib/python3.7/site-packages/'']
          then Inr [\<lparr>project_name = ''tensorflow-gpu'', version = ''2.1.0''\<rparr>] else Inr [])"

section \<open>Properties of the library operations and of the two loops\<close>

lemma target_path_value: "os_path_join ''site-packages'' ''pip'' = ''site-packages/pip''"
  by (simp add: os_path_join_def)

lemma str_contains_iff: "str_contains sub s \<longleftrightarrow> (\<exists>pre post. s = pre @ sub @ post)"
proof (induction s)
  case Nil
  then show ?case by auto
next
  case (Cons c cs)
  show ?case
  proof
    assume "str_contains sub (c # cs)"
    then consider "take (length sub) (c # cs) = sub" | "str_contains sub cs" by auto
    then show "\<exists>pre post. c # cs = pre @ sub @ post"
    proof cases
      case 1
      then have "c # cs = [] @ sub @ drop (length sub) (c # cs)"
        by (metis append_Nil append_take_drop_id)
      then show ?thesis by blast
    next
      case 2
      then obtain pre post where "cs = pre @ sub @ post" using Cons.IH by blast
      then have "c # cs = (c # pre) @ sub @ post" by simp
      then show ?thesis by blast
    qed
  next
    assume "\<exists>pre post. c # cs = pre @ sub @ post"
    then obtain pre post where eq: "c # cs = pre @ sub @ post" by blast
    show "str_contains sub (c # cs)"
    proof (cases pre)
      case Nil
      then have "take (length sub) (c # cs) = sub" using eq by simp
      then show ?thesis by simp
    next
      case (Cons p pre')
      then have "cs = pre' @ sub @ post" using eq by simp
      then have "str_contains sub cs" using Cons.IH by blast
      then show ?thesis by simp
    qed
  qed
qed

lemma str_index_Some_iff_contains: "(\<exists>i. str_index s sub = Some i) \<longleftrightarrow> str_contains sub s"
  by (induction s) auto

lemma str_index_take:
  "str_index s sub = Some i \<Longrightarrow> take (length sub) (drop i s) = sub \<and> i \<le> length s"
proof (induction s arbitrary: i)
  case Nil
  then show ?case by (auto split: if_splits)
next
  case (Cons c cs)
  then show ?case by (auto split: if_splits)
qed

lemma str_index_least:
  "str_index s sub = Some i \<Longrightarrow> j < i \<Longrightarrow> take (length sub) (drop j s) \<noteq> sub"
proof (induction s arbitrary: i j)
  case Nil
  then show ?case by (auto split: if_splits)
next
  case (Cons c cs)
  then show ?case by (cases j) (auto split: if_splits)
qed

lemma contains_suffix_of_marker:
  "str_contains (a @ b) s \<Longrightarrow> str_contains b s"
proof -
  assume "str_contains (a @ b) s"
  then obtain pre post where "s = pre @ (a @ b) @ post" unfolding str_contains_iff by blast
  then have "s = (pre @ a) @ b @ post" by simp
  then show ?thesis unfolding str_contains_iff by blast
qed

lemma index_pip_defined:
  "str_contains ''site-packages/pip'' path \<Longrightarrow> \<exists>i. str_index path ''pip'' = Some i"
proof -
  assume "str_contains ''site-packages/pip'' path"
  then have "str_contains (''site-packages/'' @ ''pip'') path" by simp
  then have "str_contains ''pip'' path" by (rule contains_suffix_of_marker)
  then show ?thesis by (simp add: str_index_Some_iff_contains)
qed

lemma find_source_path_total:
  "\<exists>sp. find_source_path ''site-packages/pip'' ps whole = Inr sp"
proof (induction ps)
  case Nil
  then show ?case by simp
next
  case (Cons path rest)
  show ?case
  proof (cases "str_contains ''site-packages/pip'' path")
    case True
    then obtain i where "str_index path ''pip'' = Some i" using index_pip_defined by blast
    then show ?thesis using True by simp
  next
    case False
    then show ?thesis using Cons.IH by simp
  qed
qed

lemma find_source_path_no_marker:
  "\<forall>p \<in> set ps. \<not> str_contains target p \<Longrightarrow> find_source_path target ps whole = Inr whole"
  by (induction ps) auto

lemma scan_candidates_default:
  "\<forall>c \<in> set cands. c \<notin> set installed \<Longrightarrow> scan_candidates cands installed = ''tensorflow''"
  by (induction cands) auto

lemma scan_candidates_first:
  "i < length cands \<Longrightarrow> cands ! i \<in> set installed \<Longrightarrow> \<forall>j<i. cands ! j \<notin> set installed \<Longrightarrow>
   scan_candidates cands installed = cands ! i"
proof (induction cands arbitrary: i)
  case Nil
  then show ?case by simp
next
  case (Cons d ds)
  show ?case
  proof (cases i)
    case 0
    then show ?thesis using Cons.prems by simp
  next
    case (Suc k)
    have "d \<notin> set installed" using Cons.prems(3) Suc by auto
    moreover have "\<forall>j<k. ds ! j \<notin> set installed"
    proof (intro allI impI)
      fix j assume "j < k"
      then have "Suc j < i" using Suc by simp
      then have "(d # ds) ! Suc j \<notin> set installed" using Cons.prems(3) by blast
      then show "ds ! j \<notin> set installed" by simp
    qed
    moreover have "k < length ds" "ds ! k \<in> set installed" using Cons.prems Suc by auto
    ultimately have "d \<notin> set installed" "scan_candidates ds installed = ds ! k"
      using Cons.IH[of k] by auto
    then have "d \<notin> set installed \<and> scan_candidates ds installed = ds ! k" by simp
    then show ?thesis using Suc by simp
  qed
qed

lemma scan_candidates_range:
  "scan_candidates cands installed \<in> set cands \<union> {''tensorflow''}"
  by (induction cands) auto

lemma scan_candidates_member:
  "scan_candidates cands installed = c \<Longrightarrow> c \<noteq> ''tensorflow'' \<Longrightarrow> c \<in> set installed"
  by (induction cands) (auto split: if_splits)

lemma scan_candidates_cong:
  "set installed = set installed' \<Longrightarrow> scan_candidates cands installed = scan_candidates cands installed'"
  by (induction cands) auto

lemma resolve_portable:
  "''bdist_wheel'' \<in> set (sys_argv s) \<Longrightarrow> resolve s = Inr (s\<lparr>tf_req := Some ''tensorflow''\<rparr>)"
  by (simp add: resolve_def)

lemma resolve_direct:
  assumes "''bdist_wheel'' \<notin> set (sys_argv s)"
    and "find_source_path (os_path_join ''site-packages'' ''pip'') (sys_path s) (sys_path s) = Inr sp"
    and "WorkingSet s sp = Inr ds"
  shows "resolve s = Inr (s\<lparr>target_path := Some (os_path_join ''site-packages'' ''pip''),
      source_path := Some sp, installed_dists := Some (map project_name ds),
      tf_req := Some (scan_candidates tf_candidates (map project_name ds))\<rparr>)"
  using assms
  by (simp add: resolve_def assign_target_path_def assign_source_path_def
      assign_installed_dists_def assign_tf_req_def and_then_def read_var_def)

lemma resolve_direct_error:
  assumes "''bdist_wheel'' \<notin> set (sys_argv s)"
    and "find_source_path (os_path_join ''site-packages'' ''pip'') (sys_path s) (sys_path s) = Inr sp"
    and "WorkingSet s sp = Inl e"
  shows "resolve s = Inl e"
  using assms
  by (simp add: resolve_def assign_target_path_def assign_source_path_def
      assign_installed_dists_def assign_tf_req_def and_then_def read_var_def)


lemma requirement_bound_tf:
  "tf \<in> set tf_family \<Longrightarrow> requirement_bound (tf @ ''>=2.0.0'') = ''>=2.0.0''"
  by (auto simp: tf_family_def tf_candidates_def requirement_bound_def is_comparator_char_def)

lemma manifest_tf_entries:
  "tf \<in> set tf_family \<Longrightarrow> filter is_tf_family_spec (manifest tf) = [tf @ ''>=2.0.0'']"
  by (auto simp: tf_family_def tf_candidates_def requirement_name_def is_comparator_char_def
      manifest_def is_tf_family_spec_def)

lemma scan_candidates_family: "scan_candidates tf_candidates installed \<in> set tf_family"
  using scan_candidates_range[of tf_candidates installed] by (auto simp: tf_family_def)

lemma resolve_outcome:
  obtains
    (wheel) "''bdist_wheel'' \<in> set (sys_argv s)"
      and "resolve s = Inr (s\<lparr>tf_req := Some ''tensorflow''\<rparr>)"
  | (failed) sp e where "''bdist_wheel'' \<notin> set (sys_argv s)"
      and "find_source_path (os_path_join ''site-packages'' ''pip'') (sys_path s) (sys_path s) = Inr sp"
      and "WorkingSet s sp = Inl e"
      and "resolve s = Inl e"
  | (scanned) sp ds where "''bdist_wheel'' \<notin> set (sys_argv s)"
      and "find_source_path (os_path_join ''site-packages'' ''pip'') (sys_path s) (sys_path s) = Inr sp"
      and "WorkingSet s sp = Inr ds"
      and "resolve s = Inr (s\<lparr>target_path := Some (os_path_join ''site-packages'' ''pip''),
        source_path := Some sp, installed_dists := Some (map project_name ds),
        tf_req := Some (scan_candidates tf_candidates (map project_name ds))\<rparr>)"
proof (cases "''bdist_wheel'' \<in> set (sys_argv s)")
  case True
  then show ?thesis using wheel resolve_portable by blast
next
  case False
  obtain sp where sp: "find_source_path (os_path_join ''site-packages'' ''pip'') (sys_path s) (sys_path s) = Inr sp"
    using find_source_path_total[of "sys_path s" "sys_path s"] by (auto simp: target_path_value)
  show ?thesis
  proof (cases "WorkingSet s sp")
    case (Inl e)
    then show ?thesis using failed False sp resolve_direct_error by blast
  next
    case (Inr ds)
    then show ?thesis using scanned False sp resolve_direct by blast
  qed
qed

lemma install_req_block_Inr:
  "resolve s = Inr s1 \<Longrightarrow> tf_req s1 = Some tf \<Longrightarrow>
   install_req_block s = Inr (s1\<lparr>install_req := Some (manifest tf)\<rparr>)"
  by (simp add: install_req_block_def and_then_def assign_install_req_def read_var_def)

lemma install_req_block_Inl: "resolve s = Inl e \<Longrightarrow> install_req_block s = Inl e"
  by (simp add: install_req_block_def and_then_def)

lemma resolve_binds_tf_req:
  "resolve s = Inr s1 \<Longrightarrow> \<exists>tf \<in> set tf_family. tf_req s1 = Some tf"
proof (cases s rule: resolve_outcome)
  case wheel
  assume "resolve s = Inr s1"
  with wheel show ?thesis by (auto simp: tf_family_def)
next
  case (failed sp e)
  assume "resolve s = Inr s1"
  with failed show ?thesis by simp
next
  case (scanned sp ds)
  assume "resolve s = Inr s1"
  with scanned show ?thesis using scan_candidates_family by auto
qed

lemma resolve_frame:
  "resolve s = Inr s1 \<Longrightarrow>
   sys_argv s1 = sys_argv s \<and> sys_path s1 = sys_path s \<and> WorkingSet s1 = WorkingSet s"
  by (cases s rule: resolve_outcome) auto

lemma install_req_block_outcome:
  assumes "install_req_block s = Inr s'"
  obtains s1 tf where "resolve s = Inr s1" and "tf \<in> set tf_family" and "tf_req s1 = Some tf"
    and "s' = s1\<lparr>install_req := Some (manifest tf)\<rparr>"
proof (cases "resolve s")
  case (Inl e)
  then show ?thesis using assms install_req_block_Inl by fastforce
next
  case (Inr s1)
  then obtain tf where "tf \<in> set tf_family" "tf_req s1 = Some tf"
    using resolve_binds_tf_req by blast
  then show ?thesis using that Inr assms install_req_block_Inr by fastforce
qed

lemma filter_single:
  assumes "filter P xs = [x]"
  shows "(\<exists>y \<in> set xs. P y) \<and> (\<forall>y \<in> set xs. P y \<longrightarrow> y = x)"
proof -
  have "set (filter P xs) = {x}" using assms by simp
  then have "{y \<in> set xs. P y} = {x}" by simp
  then show ?thesis by blast
qed

lemma str_index_eqI:
  "take (length sub) (drop i s) = sub \<Longrightarrow> i \<le> length s \<Longrightarrow>
   \<forall>j<i. take (length sub) (drop j s) \<noteq> sub \<Longrightarrow> str_index s sub = Some i"
proof (induction s arbitrary: i)
  case Nil
  then show ?case by auto
next
  case (Cons c cs)
  show ?case
  proof (cases "take (length sub) (c # cs) = sub")
    case True
    have "i = 0"
    proof (rule ccontr)
      assume "i \<noteq> 0"
      then have "take (length sub) (drop 0 (c # cs)) \<noteq> sub" using Cons.prems(3) by blast
      then show False using True by simp
    qed
    then show ?thesis using True by simp
  next
    case False
    have "i \<noteq> 0"
    proof
      assume "i = 0"
      with Cons.prems(1) have "take (length sub) (c # cs) = sub" by simp
      with False show False by simp
    qed
    then obtain k where k: "i = Suc k" by (cases i) auto
    have "take (length sub) (drop k cs) = sub" using Cons.prems(1) k by simp
    moreover have "k \<le> length cs" using Cons.prems(2) k by simp
    moreover have "\<forall>j<k. take (length sub) (drop j cs) \<noteq> sub"
    proof (intro allI impI)
      fix j assume "j < k"
      then have "Suc j < i" using k by simp
      then have "take (length sub) (drop (Suc j) (c # cs)) \<noteq> sub" using Cons.prems(3) by blast
      then show "take (length sub) (drop j cs) \<noteq> sub" by simp
    qed
    ultimately have "str_index cs sub = Some k" by (rule Cons.IH)
    then show ?thesis using False k by simp
  qed
qed

lemma occurrence_in_prefix:
  assumes "take (length sub) (drop j s) = sub" and "j + length sub \<le> n"
  shows "str_contains sub (take n s)"
proof -
  define pre where "pre = take j s"
  define rest where "rest = drop (length sub) (drop j s)"
  have "drop j s = sub @ rest"
    unfolding rest_def using assms(1) by (metis append_take_drop_id)
  then have s: "s = pre @ sub @ rest"
    unfolding pre_def by (metis append_take_drop_id)
  have "length pre \<le> j" unfolding pre_def by simp
  then have le: "length pre + length sub \<le> n" using assms(2) by simp
  have "take n (pre @ sub @ rest) = pre @ sub @ take (n - length pre - length sub) rest"
    using le by simp
  then show ?thesis unfolding str_contains_iff s by blast
qed

lemma index_pip_at_marker:
  assumes "\<not> str_contains ''pip'' (pre @ ''site-packages/pi'')"
  shows "str_index (pre @ ''site-packages/pip'' @ post) ''pip'' = Some (length pre + 14)"
proof (rule str_index_eqI)
  show "take (length ''pip'') (drop (length pre + 14) (pre @ ''site-packages/pip'' @ post)) = ''pip''"
    by simp
  show "length pre + 14 \<le> length (pre @ ''site-packages/pip'' @ post)" by simp
  show "\<forall>j<length pre + 14.
      take (length ''pip'') (drop j (pre @ ''site-packages/pip'' @ post)) \<noteq> ''pip''"
  proof (intro allI impI notI)
    fix j
    assume j: "j < length pre + 14"
      and occ: "take (length ''pip'') (drop j (pre @ ''site-packages/pip'' @ post)) = ''pip''"
    have "j + length ''pip'' \<le> length pre + 16" using j by simp
    with occ have "str_contains ''pip'' (take (length pre + 16) (pre @ ''site-packages/pip'' @ post))"
      by (rule occurrence_in_prefix)
    moreover have "take (length pre + 16) (pre @ ''site-packages/pip'' @ post) = pre @ ''site-packages/pi''"
      by simp
    ultimately show False using assms by simp
  qed
qed

lemma find_source_path_first_marker:
  assumes "\<forall>p \<in> set before. \<not> str_contains target p"
    and "str_contains target path"
    and "str_index path ''pip'' = Some i"
  shows "find_source_path target (before @ path # rest) whole = Inr [take i path]"
  using assms by (induction before) auto

lemma find_source_path_site_directory:
  assumes "\<forall>p \<in> set before. \<not> str_contains ''site-packages/pip'' p"
    and "\<not> str_contains ''pip'' (pre @ ''site-packages/pi'')"
  shows "find_source_path ''site-packages/pip'' (before @ (pre @ ''site-packages/pip'' @ post) # rest) whole
     = Inr [pre @ ''site-packages/'']"
proof -
  have marker: "str_contains ''site-packages/pip'' (pre @ ''site-packages/pip'' @ post)"
    unfolding str_contains_iff by blast
  have "find_source_path ''site-packages/pip'' (before @ (pre @ ''site-packages/pip'' @ post) # rest) whole
     = Inr [take (length pre + 14) (pre @ ''site-packages/pip'' @ post)]"
    using assms(1) marker index_pip_at_marker[OF assms(2)] by (rule find_source_path_first_marker)
  then show ?thesis by simp
qed

lemma resolve_earlier_first:
  assumes "''bdist_wheel'' \<notin> set argv"
    and "i < length tf_dists"
    and "tf_dists ! i \<in> project_name ` set working_set"
    and "\<forall>j<i. tf_dists ! j \<notin> project_name ` set working_set"
  shows "resolve_earlier argv working_set = tf_dists ! i"
  using scan_candidates_first[of i tf_dists "map project_name working_set"] assms
  by (simp add: resolve_earlier_def)

lemma resolve_earlier_default:
  "''bdist_wheel'' \<in> set argv \<or> (\<forall>c \<in> set tf_dists. c \<notin> project_name ` set working_set) \<Longrightarrow>
   resolve_earlier argv working_set = ''tensorflow''"
  using scan_candidates_default[of tf_dists "map project_name working_set"]
  by (auto simp: resolve_earlier_def)

section \<open>Runs of the example states\<close>

lemma isolated_install_source:
  "find_source_path (os_path_join ''site-packages'' ''pip'') (sys_path isolated_install)
     (sys_path isolated_install) = Inr [''/v/site-packages/'']"
  by (simp add: isolated_install_def initial_def target_path_value)

lemma isolated_install_rev_source:
  "find_source_path (os_path_join ''site-packages'' ''pip'') (sys_path isolated_install_rev)
     (sys_path isolated_install_rev) = Inr [''/v/site-packages/'']"
  by (simp add: isolated_install_rev_def initial_def target_path_value)

lemma plain_install_source:
  "find_source_path (os_path_join ''site-packages'' ''pip'') (sys_path plain_install)
     (sys_path plain_install) = Inr [''/usr/lib/site-packages'']"
  by (simp add: plain_install_def initial_def target_path_value)

lemma empty_install_source:
  "find_source_path (os_path_join ''site-packages'' ''pip'') (sys_path empty_install)
     (sys_path empty_install) = Inr [''/usr/lib/site-packages'']"
  by (simp add: empty_install_def initial_def target_path_value)

lemma isolated_install_block:
  "install_req_block isolated_install =
     Inr (isolated_install\<lparr>target_path := Some ''site-packages/pip'',
       source_path := Some [''/v/site-packages/''],
       installed_dists := Some [''numpy'', ''tensorflow-gpu'', ''tf-nightly''],
       tf_req := Some ''tf-nightly'',
       install_req := Some [''nengo>=3.0.0'', ''numpy>=1.16.0'', ''tf-nightly>=2.0.0'',
         ''jinja2>=2.10.1'', ''packaging>=20.0'', ''progressbar2>=3.39.0'']\<rparr>)"
proof -
  have h1: "''bdist_wheel'' \<notin> set (sys_argv isolated_install)"
    by (simp add: isolated_install_def initial_def)
  have h3: "WorkingSet isolated_install [''/v/site-packages/''] = Inr site_dists"
    by (simp add: isolated_install_def initial_def)
  have scan: "scan_candidates tf_candidates (map project_name site_dists) = ''tf-nightly''"
    by (simp add: tf_candidates_def site_dists_def)
  have names: "map project_name site_dists = [''numpy'', ''tensorflow-gpu'', ''tf-nightly'']"
    by (simp add: site_dists_def)
  note r = resolve_direct[OF h1 isolated_install_source h3]
  show ?thesis
    using install_req_block_Inr[OF r, of "''tf-nightly''"] scan names
    by (simp add: target_path_value manifest_def)
qed

section \<open>The claims\<close>

text \<open>
  Claim C1. In a run that is not a wheel build, where the query of the package metadata
  returns the distributions \<open>ds\<close>, the loop goes through the five names of
  \<open>tf_candidates\<close> in their order and \<open>tf_req\<close> becomes the first of them that is the
  project name of some distribution in \<open>ds\<close>. The choice depends on the set of installed
  names only: any run with the same arguments and search path whose query returns the same
  set of names, in whatever order, chooses the same candidate.
\<close>

theorem resolve_first_candidate:
  assumes "''bdist_wheel'' \<notin> set (sys_argv s)"
    and "find_source_path (os_path_join ''site-packages'' ''pip'') (sys_path s) (sys_path s) = Inr sp"
    and "WorkingSet s sp = Inr ds"
    and "i < length tf_candidates"
    and "tf_candidates ! i \<in> project_name ` set ds"
    and "\<forall>j<i. tf_candidates ! j \<notin> project_name ` set ds"
  shows "tf_candidates =
      [''tf-nightly-gpu'', ''tf-nightly'', ''tf-nightly-cpu'', ''tensorflow-gpu'', ''tensorflow-cpu'']
    \<and> (\<exists>s'. resolve s = Inr s' \<and> tf_req s' = Some (tf_candidates ! i))
    \<and> (\<forall>t ds'. sys_argv t = sys_argv s \<and> sys_path t = sys_path s \<and> WorkingSet t sp = Inr ds'
          \<and> project_name ` set ds' = project_name ` set ds
        \<longrightarrow> (\<exists>t'. resolve t = Inr t' \<and> tf_req t' = Some (tf_candidates ! i)))"
proof -
  have pick: "scan_candidates tf_candidates (map project_name xs) = tf_candidates ! i"
    if "project_name ` set xs = project_name ` set ds" for xs
    using scan_candidates_first[of i tf_candidates "map project_name xs"] assms(4-6) that
    by simp
  have names: "tf_candidates =
      [''tf-nightly-gpu'', ''tf-nightly'', ''tf-nightly-cpu'', ''tensorflow-gpu'', ''tensorflow-cpu'']"
    by (simp add: tf_candidates_def)
  have here: "\<exists>s'. resolve s = Inr s' \<and> tf_req s' = Some (tf_candidates ! i)"
    using resolve_direct[OF assms(1-3)] pick[of ds] by simp
  have other: "\<exists>t'. resolve t = Inr t' \<and> tf_req t' = Some (tf_candidates ! i)"
    if "sys_argv t = sys_argv s \<and> sys_path t = sys_path s \<and> WorkingSet t sp = Inr ds'
          \<and> project_name ` set ds' = project_name ` set ds" for t ds'
  proof -
    have "''bdist_wheel'' \<notin> set (sys_argv t)" using that assms(1) by simp
    moreover have "find_source_path (os_path_join ''site-packages'' ''pip'') (sys_path t) (sys_path t) = Inr sp"
      using that assms(2) by simp
    moreover have "WorkingSet t sp = Inr ds'" using that by simp
    ultimately have "resolve t = Inr (t\<lparr>target_path := Some (os_path_join ''site-packages'' ''pip''),
        source_path := Some sp, installed_dists := Some (map project_name ds'),
        tf_req := Some (scan_candidates tf_candidates (map project_name ds'))\<rparr>)"
      by (rule resolve_direct)
    then show ?thesis using pick[of ds'] that by simp
  qed
  have anywhere: "\<forall>t ds'. sys_argv t = sys_argv s \<and> sys_path t = sys_path s \<and> WorkingSet t sp = Inr ds'
          \<and> project_name ` set ds' = project_name ` set ds
        \<longrightarrow> (\<exists>t'. resolve t = Inr t' \<and> tf_req t' = Some (tf_candidates ! i))"
    using other by blast
  show ?thesis by (rule conjI[OF names conjI[OF here anywhere]])
qed

theorem resolve_first_candidate_witness:
  "''bdist_wheel'' \<notin> set (sys_argv isolated_install)
   \<and> WorkingSet isolated_install [''/v/site-packages/''] = Inr site_dists
   \<and> ''tf-nightly-gpu'' \<notin> project_name ` set site_dists
   \<and> ''tf-nightly'' \<in> project_name ` set site_dists
   \<and> ''tensorflow-gpu'' \<in> project_name ` set site_dists
   \<and> (\<exists>s'. resolve isolated_install = Inr s' \<and> tf_req s' = Some ''tf-nightly'')
   \<and> (\<exists>t'. resolve isolated_install_rev = Inr t' \<and> tf_req t' = Some ''tf-nightly'')"
proof -
  have h1: "''bdist_wheel'' \<notin> set (sys_argv isolated_install)"
    by (simp add: isolated_install_def initial_def)
  have h3: "WorkingSet isolated_install [''/v/site-packages/''] = Inr site_dists"
    by (simp add: isolated_install_def initial_def)
  have h4: "1 < length tf_candidates" by (simp add: tf_candidates_def)
  have h5: "tf_candidates ! 1 \<in> project_name ` set site_dists"
    by (simp add: tf_candidates_def site_dists_def)
  have h6: "\<forall>j<1. tf_candidates ! j \<notin> project_name ` set site_dists"
    by (simp add: tf_candidates_def site_dists_def)
  have names: "''tf-nightly-gpu'' \<notin> project_name ` set site_dists
     \<and> ''tf-nightly'' \<in> project_name ` set site_dists
     \<and> ''tensorflow-gpu'' \<in> project_name ` set site_dists"
    by (simp add: site_dists_def)
  note t = resolve_first_candidate[OF h1 isolated_install_source h3 h4 h5 h6]
  have nth: "tf_candidates ! 1 = ''tf-nightly''" by (simp add: tf_candidates_def)
  have a: "\<exists>s'. resolve isolated_install = Inr s' \<and> tf_req s' = Some ''tf-nightly''"
    using t nth by simp
  have r: "sys_argv isolated_install_rev = sys_argv isolated_install
      \<and> sys_path isolated_install_rev = sys_path isolated_install
      \<and> WorkingSet isolated_install_rev [''/v/site-packages/''] = Inr (rev site_dists)
      \<and> project_name ` set (rev site_dists) = project_name ` set site_dists"
    by (simp add: isolated_install_rev_def isolated_install_def initial_def)
  have b: "\<exists>t'. resolve isolated_install_rev = Inr t' \<and> tf_req t' = Some ''tf-nightly''"
    using t r nth by metis
  show ?thesis using h1 h3 names a b by simp
qed

text \<open>
  Claim C2. When \<^verbatim>\<open>sys.argv\<close> contains \<^verbatim>\<open>bdist_wheel\<close> the block sets \<open>tf_req\<close> to
  \<^verbatim>\<open>tensorflow\<close> and does nothing else: the final state is the initial one with that one
  assignment, whatever the search path holds and whatever the metadata query would
  return or raise.
\<close>

theorem resolve_portable_default:
  "''bdist_wheel'' \<in> set (sys_argv s) \<Longrightarrow> resolve s = Inr (s\<lparr>tf_req := Some ''tensorflow''\<rparr>)"
  by (simp add: resolve_def)

theorem resolve_portable_default_witness:
  "''bdist_wheel'' \<in> set (sys_argv wheel_build)
   \<and> (\<forall>sp. WorkingSet wheel_build sp = Inl (MetadataError ''unreadable''))
   \<and> resolve wheel_build = Inr (wheel_build\<lparr>tf_req := Some ''tensorflow''\<rparr>)"
proof -
  have h: "''bdist_wheel'' \<in> set (sys_argv wheel_build)"
    by (simp add: wheel_build_def initial_def)
  have q: "\<forall>sp. WorkingSet wheel_build sp = Inl (MetadataError ''unreadable'')"
    by (simp add: wheel_build_def initial_def)
  show ?thesis using h q resolve_portable_default[OF h] by simp
qed

text \<open>
  Claim C3. In a run that is not a wheel build, when none of the five candidates is the
  project name of an installed distribution (in particular when nothing is installed),
  \<open>tf_req\<close> becomes the default \<^verbatim>\<open>tensorflow\<close>.
\<close>

theorem resolve_no_candidate_default:
  assumes "''bdist_wheel'' \<notin> set (sys_argv s)"
    and "find_source_path (os_path_join ''site-packages'' ''pip'') (sys_path s) (sys_path s) = Inr sp"
    and "WorkingSet s sp = Inr ds"
    and "\<forall>c \<in> set tf_candidates. c \<notin> project_name ` set ds"
  shows "\<exists>s'. resolve s = Inr s' \<and> tf_req s' = Some ''tensorflow''"
  using resolve_direct[OF assms(1-3)]
    scan_candidates_default[of tf_candidates "map project_name ds"] assms(4)
  by simp

theorem resolve_no_candidate_default_witness:
  "''bdist_wheel'' \<notin> set (sys_argv plain_install)
   \<and> WorkingSet plain_install [''/usr/lib/site-packages''] = Inr lookalike_dists
   \<and> lookalike_dists \<noteq> []
   \<and> (\<exists>s'. resolve plain_install = Inr s' \<and> tf_req s' = Some ''tensorflow'')
   \<and> WorkingSet empty_install [''/usr/lib/site-packages''] = Inr []
   \<and> (\<exists>s'. resolve empty_install = Inr s' \<and> tf_req s' = Some ''tensorflow'')"
proof -
  have p1: "''bdist_wheel'' \<notin> set (sys_argv plain_install)"
    by (simp add: plain_install_def initial_def)
  have p3: "WorkingSet plain_install [''/usr/lib/site-packages''] = Inr lookalike_dists"
    by (simp add: plain_install_def initial_def)
  have p4: "\<forall>c \<in> set tf_candidates. c \<notin> project_name ` set lookalike_dists"
    by (simp add: tf_candidates_def lookalike_dists_def)
  have e1: "''bdist_wheel'' \<notin> set (sys_argv empty_install)"
    by (simp add: empty_install_def initial_def)
  have e3: "WorkingSet empty_install [''/usr/lib/site-packages''] = Inr []"
    by (simp add: empty_install_def initial_def)
  have e4: "\<forall>c \<in> set tf_candidates. c \<notin> project_name ` set []"
    by simp
  have ne: "lookalike_dists \<noteq> []" by (simp add: lookalike_dists_def)
  show ?thesis
    using p1 p3 e3 ne
      resolve_no_candidate_default[OF p1 plain_install_source p3 p4]
      resolve_no_candidate_default[OF e1 empty_install_source e3 e4]
    by simp
qed



text \<open>
  Claim C6. In a run that is not a wheel build, a candidate is chosen only when some
  installed distribution has exactly that project name (string equality of the whole
  name), and the choice does not look at versions: a run whose query returns
  distributions with the same project names, whatever their versions, chooses the same
  name.
\<close>

theorem candidate_presence_exact:
  fixes s :: state
  assumes "''bdist_wheel'' \<notin> set (sys_argv s)"
    and "find_source_path (os_path_join ''site-packages'' ''pip'') (sys_path s) (sys_path s) = Inr sp"
    and "WorkingSet s sp = Inr ds"
  shows "(\<forall>c \<in> set tf_candidates. (\<exists>s'. resolve s = Inr s' \<and> tf_req s' = Some c)
            \<longrightarrow> (\<exists>d \<in> set ds. project_name d = c))
    \<and> (\<forall>t ds'. sys_argv t = sys_argv s \<and> sys_path t = sys_path s \<and> WorkingSet t sp = Inr ds'
          \<and> map project_name ds' = map project_name ds
        \<longrightarrow> (\<exists>s' t'. resolve s = Inr s' \<and> resolve t = Inr t' \<and> tf_req t' = tf_req s'))"
proof (intro conjI ballI allI impI)
  fix c
  assume c: "c \<in> set tf_candidates" and "\<exists>s'. resolve s = Inr s' \<and> tf_req s' = Some c"
  then have "scan_candidates tf_candidates (map project_name ds) = c"
    using resolve_direct[OF assms] by auto
  moreover have "c \<noteq> ''tensorflow''" using c by (auto simp: tf_candidates_def)
  ultimately have "c \<in> set (map project_name ds)" by (rule scan_candidates_member)
  then show "\<exists>d \<in> set ds. project_name d = c" by auto
next
  fix t :: state and ds'
  assume t: "sys_argv t = sys_argv s \<and> sys_path t = sys_path s \<and> WorkingSet t sp = Inr ds'
          \<and> map project_name ds' = map project_name ds"
  have "''bdist_wheel'' \<notin> set (sys_argv t)" using t assms(1) by simp
  moreover have "find_source_path (os_path_join ''site-packages'' ''pip'') (sys_path t) (sys_path t) = Inr sp"
    using t assms(2) by simp
  moreover have "WorkingSet t sp = Inr ds'" using t by simp
  ultimately have "resolve t = Inr (t\<lparr>target_path := Some (os_path_join ''site-packages'' ''pip''),
        source_path := Some sp, installed_dists := Some (map project_name ds'),
        tf_req := Some (scan_candidates tf_candidates (map project_name ds'))\<rparr>)"
    by (rule resolve_direct)
  then show "\<exists>s' t'. resolve s = Inr s' \<and> resolve t = Inr t' \<and> tf_req t' = tf_req s'"
    using resolve_direct[OF assms] t by simp
qed

theorem candidate_presence_exact_witness:
  "''bdist_wheel'' \<notin> set (sys_argv isolated_install)
   \<and> WorkingSet isolated_install [''/v/site-packages/''] = Inr site_dists
   \<and> (\<exists>s'. resolve isolated_install = Inr s' \<and> tf_req s' = Some ''tf-nightly'')
   \<and> (\<exists>d \<in> set site_dists. project_name d = ''tf-nightly'')
   \<and> (\<exists>s' t'. resolve isolated_install = Inr s'
        \<and> resolve (isolated_install\<lparr>WorkingSet :=
             \<lambda>sp. Inr (map (\<lambda>d. d\<lparr>version := ''0.0.1''\<rparr>) site_dists)\<rparr>) = Inr t'
        \<and> tf_req t' = tf_req s')"
proof -
  let ?t = "isolated_install\<lparr>WorkingSet :=
             \<lambda>sp. Inr (map (\<lambda>d. d\<lparr>version := ''0.0.1''\<rparr>) site_dists)\<rparr>"
  have h1: "''bdist_wheel'' \<notin> set (sys_argv isolated_install)"
    by (simp add: isolated_install_def initial_def)
  have h3: "WorkingSet isolated_install [''/v/site-packages/''] = Inr site_dists"
    by (simp add: isolated_install_def initial_def)
  note t = candidate_presence_exact[OF h1 isolated_install_source h3]
  have chosen: "\<exists>s'. resolve isolated_install = Inr s' \<and> tf_req s' = Some ''tf-nightly''"
    using resolve_direct[OF h1 isolated_install_source h3]
    by (simp add: tf_candidates_def site_dists_def)
  have cand: "''tf-nightly'' \<in> set tf_candidates" by (simp add: tf_candidates_def)
  have a: "\<exists>d \<in> set site_dists. project_name d = ''tf-nightly''"
    using t chosen cand by blast
  have v: "sys_argv ?t = sys_argv isolated_install \<and> sys_path ?t = sys_path isolated_install
      \<and> WorkingSet ?t [''/v/site-packages/''] = Inr (map (\<lambda>d. d\<lparr>version := ''0.0.1''\<rparr>) site_dists)
      \<and> map project_name (map (\<lambda>d. d\<lparr>version := ''0.0.1''\<rparr>) site_dists) = map project_name site_dists"
    by simp
  have b: "\<exists>s' t'. resolve isolated_install = Inr s' \<and> resolve ?t = Inr t' \<and> tf_req t' = tf_req s'"
    using t v by blast
  show ?thesis using h1 h3 chosen a b by simp
qed

text \<open>
  Claim C7. The block itself raises nothing. When the metadata query answers, the block
  completes for every argument list and every search path, with \<open>tf_req\<close> bound and
  \<open>install_req\<close> built from it: the guarded \<^verbatim>\<open>path.index("pip")\<close> never raises
  \<^verbatim>\<open>ValueError\<close> and no variable is read before it is bound. The only error the block
  can end in is the one the metadata query raised, in a run that is not a wheel build.
\<close>

theorem install_req_block_never_fails:
  "((\<forall>sp. \<exists>ds. WorkingSet s sp = Inr ds)
      \<longrightarrow> (\<exists>s' tf. install_req_block s = Inr s' \<and> tf_req s' = Some tf
            \<and> install_req s' = Some (manifest tf)))
   \<and> (\<forall>e. install_req_block s = Inl e
      \<longrightarrow> ''bdist_wheel'' \<notin> set (sys_argv s)
        \<and> (\<exists>sp. find_source_path (os_path_join ''site-packages'' ''pip'') (sys_path s) (sys_path s) = Inr sp
              \<and> WorkingSet s sp = Inl e))"
proof (cases s rule: resolve_outcome)
  case wheel
  have "install_req_block s = Inr (s\<lparr>tf_req := Some ''tensorflow'', install_req := Some (manifest ''tensorflow'')\<rparr>)"
    using install_req_block_Inr[OF wheel(2), of "''tensorflow''"] by simp
  then show ?thesis by simp
next
  case (failed sp e)
  then have err: "install_req_block s = Inl e" using install_req_block_Inl by blast
  have "\<not> (\<forall>sp. \<exists>ds. WorkingSet s sp = Inr ds)"
  proof
    assume "\<forall>sp. \<exists>ds. WorkingSet s sp = Inr ds"
    then obtain ds where "WorkingSet s sp = Inr ds" by blast
    then show False using failed(3) by simp
  qed
  moreover have "\<forall>e'. install_req_block s = Inl e'
      \<longrightarrow> ''bdist_wheel'' \<notin> set (sys_argv s)
        \<and> (\<exists>sp. find_source_path (os_path_join ''site-packages'' ''pip'') (sys_path s) (sys_path s) = Inr sp
              \<and> WorkingSet s sp = Inl e')"
    using err failed(1-3) by auto
  ultimately show ?thesis by blast
next
  case (scanned sp ds)
  let ?tf = "scan_candidates tf_candidates (map project_name ds)"
  have "install_req_block s = Inr (s\<lparr>target_path := Some (os_path_join ''site-packages'' ''pip''),
        source_path := Some sp, installed_dists := Some (map project_name ds),
        tf_req := Some ?tf, install_req := Some (manifest ?tf)\<rparr>)"
    using install_req_block_Inr[OF scanned(4), of ?tf] by simp
  then show ?thesis by simp
qed

theorem install_req_block_never_fails_witness:
  "(\<forall>sp. \<exists>ds. WorkingSet isolated_install sp = Inr ds)
   \<and> (\<exists>s' tf. install_req_block isolated_install = Inr s' \<and> tf_req s' = Some tf
         \<and> install_req s' = Some (manifest tf))
   \<and> install_req_block wheel_build
       = Inr (wheel_build\<lparr>tf_req := Some ''tensorflow'', install_req := Some (manifest ''tensorflow'')\<rparr>)"
proof -
  have q: "\<forall>sp. \<exists>ds. WorkingSet isolated_install sp = Inr ds"
    by (simp add: isolated_install_def initial_def)
  have a: "\<exists>s' tf. install_req_block isolated_install = Inr s' \<and> tf_req s' = Some tf
         \<and> install_req s' = Some (manifest tf)"
    using install_req_block_never_fails[of isolated_install] q by blast
  have w: "''bdist_wheel'' \<in> set (sys_argv wheel_build)"
    by (simp add: wheel_build_def initial_def)
  have b: "install_req_block wheel_build
       = Inr (wheel_build\<lparr>tf_req := Some ''tensorflow'', install_req := Some (manifest ''tensorflow'')\<rparr>)"
    using install_req_block_Inr[OF resolve_portable[OF w], of "''tensorflow''"] by simp
  show ?thesis using q a b by blast
qed

text \<open>
  Claim C8. A completed run leaves \<^verbatim>\<open>sys.argv\<close>, \<^verbatim>\<open>sys.path\<close> and the package metadata
  as they were: only the variables of the block are assigned.
\<close>

theorem install_req_block_frame:
  assumes "install_req_block s = Inr s'"
  shows "sys_argv s' = sys_argv s \<and> sys_path s' = sys_path s \<and> WorkingSet s' = WorkingSet s"
proof -
  from assms obtain s1 tf where "resolve s = Inr s1" "s' = s1\<lparr>install_req := Some (manifest tf)\<rparr>"
    by (rule install_req_block_outcome)
  then show ?thesis using resolve_frame[of s s1] by simp
qed

theorem install_req_block_frame_witness:
  "\<exists>s'. install_req_block isolated_install = Inr s'
     \<and> sys_argv s' = [''setup.py'', ''install'']
     \<and> sys_path s' = [''/b/overlay'', ''/v/site-packages/pip/_vendor'']
     \<and> WorkingSet s' = WorkingSet isolated_install"
  using install_req_block_frame[OF isolated_install_block] isolated_install_block
  by (simp add: isolated_install_def initial_def)

text \<open>
  Claim C9. Whenever the resolution completes, \<open>tf_req\<close> is bound to one of the six
  names: one of the five candidates or the default \<^verbatim>\<open>tensorflow\<close>.
\<close>

theorem resolve_six_names:
  assumes "resolve s = Inr s'"
  shows "tf_req s' \<in> {Some ''tf-nightly-gpu'', Some ''tf-nightly'', Some ''tf-nightly-cpu'',
     Some ''tensorflow-gpu'', Some ''tensorflow-cpu'', Some ''tensorflow''}"
  using resolve_binds_tf_req[OF assms] by (auto simp: tf_family_def tf_candidates_def)

theorem resolve_six_names_witness:
  "resolve wheel_build = Inr (wheel_build\<lparr>tf_req := Some ''tensorflow''\<rparr>)
   \<and> tf_req (wheel_build\<lparr>tf_req := Some ''tensorflow''\<rparr>)
       \<in> {Some ''tf-nightly-gpu'', Some ''tf-nightly'', Some ''tf-nightly-cpu'',
          Some ''tensorflow-gpu'', Some ''tensorflow-cpu'', Some ''tensorflow''}"
proof -
  have w: "''bdist_wheel'' \<in> set (sys_argv wheel_build)"
    by (simp add: wheel_build_def initial_def)
  have r: "resolve wheel_build = Inr (wheel_build\<lparr>tf_req := Some ''tensorflow''\<rparr>)"
    using w by (rule resolve_portable)
  show ?thesis using r resolve_six_names[OF r] by blast
qed

text \<open>
  Claim C10. Whenever the block completes, the list \<open>install_req\<close> has an entry of the
  TensorFlow family, and every such entry carries the bound \<^verbatim>\<open>>=2.0.0\<close>, whichever name
  was resolved.
\<close>

theorem tf_entry_bound:
  assumes "install_req_block s = Inr s'"
  shows "\<exists>req. install_req s' = Some req
    \<and> (\<exists>spec \<in> set req. is_tf_family_spec spec)
    \<and> (\<forall>spec \<in> set req. is_tf_family_spec spec \<longrightarrow> requirement_bound spec = ''>=2.0.0'')"
proof -
  from assms obtain s1 tf where tf: "tf \<in> set tf_family" "tf_req s1 = Some tf"
    and s': "s' = s1\<lparr>install_req := Some (manifest tf)\<rparr>"
    by (rule install_req_block_outcome)
  define req where "req = manifest tf"
  define entry where "entry = tf @ ''>=2.0.0''"
  have only: "filter is_tf_family_spec req = [entry]"
    unfolding req_def entry_def using tf(1) by (rule manifest_tf_entries)
  have bound: "requirement_bound entry = ''>=2.0.0''"
    unfolding entry_def using tf(1) by (rule requirement_bound_tf)
  note single = filter_single[OF only]
  have some: "\<exists>spec \<in> set req. is_tf_family_spec spec" using single by blast
  have every: "\<forall>spec \<in> set req. is_tf_family_spec spec \<longrightarrow> requirement_bound spec = ''>=2.0.0''"
  proof (intro ballI impI)
    fix spec assume "spec \<in> set req" "is_tf_family_spec spec"
    then have "spec = entry" using single by blast
    then show "requirement_bound spec = ''>=2.0.0''" using bound by simp
  qed
  have "install_req s' = Some req" using s' by (simp add: req_def)
  then show ?thesis using some every by blast
qed

theorem tf_entry_bound_witness:
  "\<exists>s'. install_req_block isolated_install = Inr s'
    \<and> install_req s' = Some [''nengo>=3.0.0'', ''numpy>=1.16.0'', ''tf-nightly>=2.0.0'',
         ''jinja2>=2.10.1'', ''packaging>=20.0'', ''progressbar2>=3.39.0'']
    \<and> is_tf_family_spec ''tf-nightly>=2.0.0''
    \<and> requirement_bound ''tf-nightly>=2.0.0'' = ''>=2.0.0''"
proof -
  define req where "req = [''nengo>=3.0.0'', ''numpy>=1.16.0'', ''tf-nightly>=2.0.0'',
         ''jinja2>=2.10.1'', ''packaging>=20.0'', ''progressbar2>=3.39.0'']"
  define entry where "entry = ''tf-nightly>=2.0.0''"
  have mem: "entry \<in> set req" by (simp add: req_def entry_def)
  have fam: "is_tf_family_spec entry"
    by (simp add: entry_def is_tf_family_spec_def requirement_name_def is_comparator_char_def
        tf_family_def tf_candidates_def)
  obtain s' where run: "install_req_block isolated_install = Inr s'"
    and req: "install_req s' = Some req"
    using isolated_install_block by (simp add: req_def)
  from tf_entry_bound[OF run] obtain r where r: "install_req s' = Some r"
    and every: "\<forall>spec \<in> set r. is_tf_family_spec spec \<longrightarrow> requirement_bound spec = ''>=2.0.0''"
    by blast
  have "r = req" using r req by simp
  then have "\<forall>spec \<in> set req. is_tf_family_spec spec \<longrightarrow> requirement_bound spec = ''>=2.0.0''"
    using every by simp
  then have "requirement_bound entry = ''>=2.0.0''" using mem fam by blast
  then show ?thesis using run req fam unfolding entry_def req_def by blast
qed

text \<open>
  Claim C5. An entry of the search path that contains the marker \<^verbatim>\<open>site-packages/pip\<close>
  is cut at \<^verbatim>\<open>path.index("pip")\<close>, the first occurrence of \<^verbatim>\<open>pip\<close> anywhere in the
  entry, not at the marker. \<open>find_source_path_site_directory\<close> shows that the result is
  the site directory when \<^verbatim>\<open>pip\<close> does not occur before the marker, and
  \<open>find_source_path_no_marker\<close> that the search path is used unchanged when no entry has
  the marker. When the original environment lives under \<^verbatim>\<open>/home/user/pipeline/\<close> the
  entry is cut inside \<^verbatim>\<open>pipeline\<close>: the directory listed is \<^verbatim>\<open>/home/user/\<close>, not the site
  directory, and the block requires \<^verbatim>\<open>tensorflow\<close> although \<^verbatim>\<open>tensorflow-gpu\<close> is
  installed in the site directory.
\<close>

theorem source_path_cut_at_earlier_pip:
  "str_contains (os_path_join ''site-packages'' ''pip'') (hd pipeline_path)
   \<and> find_source_path (os_path_join ''site-packages'' ''pip'') pipeline_path pipeline_path
       = Inr [''/home/user/'']
   \<and> (\<exists>s'. install_req_block pipeline_install = Inr s'
         \<and> source_path s' = Some [''/home/user/''] \<and> installed_dists s' = Some []
         \<and> tf_req s' = Some ''tensorflow'')
   \<and> WorkingSet pipeline_install [''/home/user/pipeline/venv/lib/python3.7/site-packages/'']
       = Inr [\<lparr>project_name = ''tensorflow-gpu'', version = ''2.1.0''\<rparr>]"
proof -
  have target: "os_path_join ''site-packages'' ''pip'' = ''site-packages/pip''"
    by (rule target_path_value)
  have marker: "str_contains ''site-packages/pip'' (hd pipeline_path)"
    by (simp add: pipeline_path_def)
  have cut: "find_source_path ''site-packages/pip'' pipeline_path pipeline_path = Inr [''/home/user/'']"
    by (simp add: pipeline_path_def)
  have h1: "''bdist_wheel'' \<notin> set (sys_argv pipeline_install)"
    by (simp add: pipeline_install_def initial_def)
  have h2: "find_source_path (os_path_join ''site-packages'' ''pip'') (sys_path pipeline_install)
      (sys_path pipeline_install) = Inr [''/home/user/'']"
    using cut by (simp add: pipeline_install_def initial_def target)
  have h3: "WorkingSet pipeline_install [''/home/user/''] = Inr []"
    by (simp add: pipeline_install_def initial_def)
  have site: "WorkingSet pipeline_install [''/home/user/pipeline/venv/lib/python3.7/site-packages/'']
       = Inr [\<lparr>project_name = ''tensorflow-gpu'', version = ''2.1.0''\<rparr>]"
    by (simp add: pipeline_install_def initial_def)
  note r = resolve_direct[OF h1 h2 h3]
  have run: "\<exists>s'. install_req_block pipeline_install = Inr s'
         \<and> source_path s' = Some [''/home/user/''] \<and> installed_dists s' = Some []
         \<and> tf_req s' = Some ''tensorflow''"
    using install_req_block_Inr[OF r, of "''tensorflow''"] by (simp add: tf_candidates_def)
  show ?thesis using marker cut run site unfolding target by blast
qed

end
